theory Spec2Isabelle
  imports Complex_Main
begin

section \<open>Local Lipschitzness estimation (robustbench/eval/lipschitz.py)\<close>

text \<open>
  A shallow embedding of \<^verbatim>\<open>box\<close>, \<^verbatim>\<open>compute_lipschitz_batch\<close>,
  \<^verbatim>\<open>compute_lipschitz\<close> and \<^verbatim>\<open>benchmark_lipschitz\<close>.

  Conventions of the embedding.
  \<^item> A batch tensor of shape \<open>[N, ...]\<close> is the list of its \<open>N\<close> samples, each sample the
    list of its coordinates: the view that \<^verbatim>\<open>torch.flatten(t, start_dim=1)\<close> gives.
    Element-wise operations act coordinate by coordinate. The tensors of one computation
    have one shape (\<^verbatim>\<open>zeros_like\<close>, \<^verbatim>\<open>ones_like\<close>, \<^verbatim>\<open>randn_like\<close> and
    \<^verbatim>\<open>.grad\<close> return the shape of their argument); broadcasting between different
    shapes is not part of the embedding.
  \<^item> Tensor coordinates are real numbers: rounding is not modelled. In \<^verbatim>\<open>float32\<close> a
    sum such as \<open>x + step_size * noise\<close> or \<open>x + eps\<close> can round back to \<open>x\<close>, so two
    tensors that differ here can coincide in the code; rounding is monotone, so it never
    reverses an order. What is stated about two tensors being different is therefore only
    what it implies, never that they are different. The quotient that the
    objective computes, and every Python float derived from it, is a \<open>pyfloat\<close>: a real
    number or one of the special values that a division by zero produces.
  \<^item> The evaluated network is a total function on tensors. The random generator and
    automatic differentiation belong to torch and are parameters.
  \<^item> \<^verbatim>\<open>.to(device)\<close>, \<^verbatim>\<open>.detach()\<close>, \<^verbatim>\<open>requires_grad_\<close> and
    \<^verbatim>\<open>torch.no_grad\<close> do not change values and are left out; the progress bar's
    postfix is kept as a field of the aggregation state.
\<close>

subsection \<open>Tensors\<close>

type_synonym tensor = "real list list"

definition same_shape :: "tensor \<Rightarrow> tensor \<Rightarrow> bool" where
  "same_shape a b = (map length a = map length b)"

definition tmap :: "(real \<Rightarrow> real) \<Rightarrow> tensor \<Rightarrow> tensor" where
  "tmap h a = map (map h) a"

definition tmap2 :: "(real \<Rightarrow> real \<Rightarrow> real) \<Rightarrow> tensor \<Rightarrow> tensor \<Rightarrow> tensor" where
  "tmap2 h a b = map2 (map2 h) a b"

definition zeros_like :: "tensor \<Rightarrow> tensor" where
  "zeros_like x = tmap (\<lambda>_. 0) x"

definition ones_like :: "tensor \<Rightarrow> tensor" where
  "ones_like x = tmap (\<lambda>_. 1) x"

definition torch_max :: "tensor \<Rightarrow> tensor \<Rightarrow> tensor" where
  "torch_max a b = tmap2 max a b"

definition torch_min :: "tensor \<Rightarrow> tensor \<Rightarrow> tensor" where
  "torch_min a b = tmap2 min a b"

definition sub_scalar :: "tensor \<Rightarrow> real \<Rightarrow> tensor" where
  "sub_scalar x c = tmap (\<lambda>v. v - c) x"

definition add_scalar :: "tensor \<Rightarrow> real \<Rightarrow> tensor" where
  "add_scalar x c = tmap (\<lambda>v. v + c) x"

definition scalar_mul :: "real \<Rightarrow> tensor \<Rightarrow> tensor" where
  "scalar_mul c x = tmap (\<lambda>v. c * v) x"

definition tadd :: "tensor \<Rightarrow> tensor \<Rightarrow> tensor" where
  "tadd a b = tmap2 (+) a b"

definition tsub :: "tensor \<Rightarrow> tensor \<Rightarrow> tensor" where
  "tsub a b = tmap2 (-) a b"

definition sign :: "tensor \<Rightarrow> tensor" where
  "sign a = tmap sgn a"

definition flatten1 :: "tensor \<Rightarrow> tensor" where
  \<comment> \<open>\<^verbatim>\<open>torch.flatten(t, start_dim=1)\<close>: the samples are stored flattened.\<close>
  "flatten1 t = t"

subsection \<open>The projector\<close>

definition box :: "tensor \<Rightarrow> tensor \<Rightarrow> real \<Rightarrow> tensor" where
  "box x_prime x eps =
     (let min_x = torch_max (zeros_like x) (sub_scalar x eps);
          max_x = torch_min (ones_like x) (add_scalar x eps)
      in torch_max min_x (torch_min x_prime max_x))"

subsection \<open>Python floats\<close>

datatype pyfloat = Fin real | PInf | NInf | NaN

datatype py_error = ZeroDivisionError | ValueError | AssertionError

text \<open>Division of two tensor coordinates: a zero divisor gives an infinity or NaN.\<close>

definition true_div :: "real \<Rightarrow> real \<Rightarrow> pyfloat" where
  "true_div a b =
     (if b \<noteq> 0 then Fin (a / b)
      else if 0 < a then PInf
      else if a < 0 then NInf
      else NaN)"

fun fadd :: "pyfloat \<Rightarrow> pyfloat \<Rightarrow> pyfloat" where
  "fadd (Fin a) (Fin b) = Fin (a + b)"
| "fadd NaN _ = NaN"
| "fadd _ NaN = NaN"
| "fadd PInf NInf = NaN"
| "fadd NInf PInf = NaN"
| "fadd PInf _ = PInf"
| "fadd _ PInf = PInf"
| "fadd NInf _ = NInf"
| "fadd _ NInf = NInf"

text \<open>Division of a float by a positive count, and by a count that may be zero.\<close>

fun fdiv_nat :: "pyfloat \<Rightarrow> nat \<Rightarrow> pyfloat" where
  "fdiv_nat (Fin s) n = true_div s (real n)"
| "fdiv_nat PInf n = PInf"
| "fdiv_nat NInf n = NInf"
| "fdiv_nat NaN n = NaN"

definition py_truediv :: "pyfloat \<Rightarrow> nat \<Rightarrow> py_error + pyfloat" where
  \<comment> \<open>Python's \<^verbatim>\<open>a / n\<close> for a float and an int: it raises when \<open>n\<close> is zero.\<close>
  "py_truediv a n = (if n = 0 then Inl ZeroDivisionError else Inr (fdiv_nat a n))"

text \<open>The comparisons \<^verbatim>\<open>a > b\<close> and \<^verbatim>\<open>a >= b\<close>: false whenever an operand is NaN.\<close>

fun fgt :: "pyfloat \<Rightarrow> pyfloat \<Rightarrow> bool" where
  "fgt NaN _ = False"
| "fgt _ NaN = False"
| "fgt (Fin a) (Fin b) = (b < a)"
| "fgt PInf PInf = False"
| "fgt PInf _ = True"
| "fgt _ PInf = False"
| "fgt NInf _ = False"
| "fgt (Fin a) NInf = True"

fun fge :: "pyfloat \<Rightarrow> pyfloat \<Rightarrow> bool" where
  "fge NaN _ = False"
| "fge _ NaN = False"
| "fge (Fin a) (Fin b) = (b \<le> a)"
| "fge PInf _ = True"
| "fge _ NInf = True"
| "fge _ _ = False"

definition py_max :: "pyfloat \<Rightarrow> pyfloat \<Rightarrow> pyfloat" where
  \<comment> \<open>Python's built-in \<^verbatim>\<open>max(a, b)\<close>: the first argument unless the second is greater.\<close>
  "py_max a b = (if fgt b a then b else a)"

definition mean :: "pyfloat list \<Rightarrow> pyfloat" where
  \<comment> \<open>\<^verbatim>\<open>.mean()\<close> of a one-dimensional tensor; NaN for the empty tensor.\<close>
  "mean v = fdiv_nat (foldl fadd (Fin 0) v) (length v)"

subsection \<open>Norms along dimension 1\<close>

definition norm_p1 :: "real list \<Rightarrow> real" where
  "norm_p1 v = sum_list (map abs v)"

definition norm_inf :: "real list \<Rightarrow> real" where
  "norm_inf v = foldr (\<lambda>a m. max \<bar>a\<bar> m) v 0"

definition norm_p2 :: "real list \<Rightarrow> real" where
  "norm_p2 v = sqrt (sum_list (map (\<lambda>a. a * a) v))"

definition torch_norm_p1_dim1 :: "tensor \<Rightarrow> real list" where
  "torch_norm_p1_dim1 t = map norm_p1 t"

definition torch_norm_inf_dim1 :: "tensor \<Rightarrow> real list" where
  "torch_norm_inf_dim1 t = map norm_inf t"

definition F_normalize :: "tensor \<Rightarrow> tensor" where
  \<comment> \<open>\<^verbatim>\<open>F.normalize\<close> with its defaults \<^verbatim>\<open>p=2, dim=1, eps=1e-12\<close>.\<close>
  "F_normalize t = map (\<lambda>row. map (\<lambda>a. a / max (norm_p2 row) (1 / 10 ^ 12)) row) t"

subsection \<open>The batch estimator\<close>

text \<open>What torch supplies: the generator behind \<^verbatim>\<open>randn_like\<close>, threaded as a state,
  and the gradient of a scalar function of a tensor at a point.\<close>

record 'g torch =
  randn_like :: "'g \<Rightarrow> tensor \<Rightarrow> tensor \<times> 'g"
  autograd :: "(tensor \<Rightarrow> pyfloat) \<Rightarrow> tensor \<Rightarrow> tensor"

definition model_flat :: "(tensor \<Rightarrow> tensor) \<Rightarrow> bool \<Rightarrow> tensor \<Rightarrow> tensor" where
  \<comment> \<open>The local \<^verbatim>\<open>model_\<close>.\<close>
  "model_flat model l2_normalize x_arg =
     (if l2_normalize then F_normalize (flatten1 (model x_arg))
      else flatten1 (model x_arg))"

definition f_objective :: "(tensor \<Rightarrow> tensor) \<Rightarrow> tensor \<Rightarrow> tensor \<Rightarrow> tensor \<Rightarrow> pyfloat list" where
  \<comment> \<open>The local function \<^verbatim>\<open>f\<close>, with the variables it closes over as arguments.\<close>
  "f_objective model_fn model_x x x_prime_arg =
     (let numerator = torch_norm_p1_dim1 (tsub model_x (model_fn x_prime_arg));
          denominator = torch_norm_inf_dim1 (tsub (flatten1 x) (flatten1 x_prime_arg))
      in map2 true_div numerator denominator)"

text \<open>The initial point. Here the sum \<open>x + step_size * noise\<close> and the bounds \<open>x - eps\<close>,
  \<open>x + eps\<close> are exact; in the code a small \<open>step_size * noise\<close> or a small \<open>eps\<close> is rounded
  away and the initial point is \<open>x\<close> itself. The initial point of the code differs from
  \<open>x\<close> in a coordinate only where this one does, in the same direction.\<close>

definition initial_x_prime :: "tensor \<Rightarrow> real \<Rightarrow> real \<Rightarrow> tensor \<Rightarrow> tensor" where
  \<comment> \<open>Line 52, for the noise that \<^verbatim>\<open>randn_like\<close> drew.\<close>
  "initial_x_prime x eps step_size noise = box (tadd x (scalar_mul step_size noise)) x eps"

text \<open>A call of \<^verbatim>\<open>f\<close>. The number of calls is not a value of the source, so a call is
  modelled as the one operation that yields the value of the objective and, with it, the
  log of the calls made so far extended by the argument. The estimator obtains every value
  of the objective through \<open>call_f\<close>; the backward pass is torch's and is no call.\<close>

definition call_f ::
  "(tensor \<Rightarrow> pyfloat list) \<Rightarrow> tensor \<Rightarrow> tensor list \<Rightarrow> pyfloat list \<times> tensor list" where
  "call_f fx x_prime_arg calls = (fx x_prime_arg, calls @ [x_prime_arg])"

text \<open>The variables of the ascent loop, and the log of the calls.\<close>

record ascent =
  st_x_prime :: tensor
  st_max_lips :: pyfloat
  st_f_calls :: "tensor list"

definition ascent_step ::
  "'g torch \<Rightarrow> (tensor \<Rightarrow> pyfloat list) \<Rightarrow> tensor \<Rightarrow> real \<Rightarrow> real \<Rightarrow> ascent \<Rightarrow> ascent" where
  "ascent_step T fx x eps step_size s =
     (let called = call_f fx (st_x_prime s) (st_f_calls s);
          y = mean (fst called);
          x_prime_grad = autograd T (\<lambda>p. mean (fx p)) (st_x_prime s)
      in \<lparr> st_x_prime =
             box (tadd (st_x_prime s) (scalar_mul step_size (sign x_prime_grad))) x eps,
           st_max_lips = py_max (st_max_lips s) y,
           st_f_calls = snd called \<rparr>)"

primrec ascent_loop ::
  "'g torch \<Rightarrow> (tensor \<Rightarrow> pyfloat list) \<Rightarrow> tensor \<Rightarrow> real \<Rightarrow> real \<Rightarrow> nat \<Rightarrow> ascent \<Rightarrow> ascent" where
  "ascent_loop T fx x eps step_size 0 s = s"
| "ascent_loop T fx x eps step_size (Suc n) s =
     ascent_loop T fx x eps step_size n (ascent_step T fx x eps step_size s)"

record 'g batch_run =
  returned :: pyfloat
  f_evals :: "tensor list"
  rng_after :: 'g

definition compute_lipschitz_batch ::
  "'g torch \<Rightarrow> (tensor \<Rightarrow> tensor) \<Rightarrow> tensor \<Rightarrow> real \<Rightarrow> real \<Rightarrow> int \<Rightarrow> bool \<Rightarrow> 'g \<Rightarrow> 'g batch_run" where
  "compute_lipschitz_batch T model x eps step_size n_steps l2_normalize g =
     (let model_fn = model_flat model l2_normalize;
          model_x = model_fn x;
          fx = f_objective model_fn model_x x;
          drawn = randn_like T g x;
          x_prime0 = initial_x_prime x eps step_size (fst drawn);
          called0 = call_f fx x_prime0 [];
          s0 = \<lparr> st_x_prime = x_prime0, st_max_lips = mean (fst called0),
                 st_f_calls = snd called0 \<rparr>;
          s = ascent_loop T fx x eps step_size (nat n_steps) s0;
          called_end = call_f fx (st_x_prime s) (st_f_calls s)
      in \<lparr> returned = py_max (st_max_lips s) (mean (fst called_end)),
           f_evals = snd called_end,
           rng_after = snd drawn \<rparr>)"

text \<open>The point to which one iteration moves \<open>x_prime\<close> (lines 59 and 60), as a function of
  the point: \<open>k\<close> iterations from the initial point reach its \<open>k\<close>-th iterate.\<close>

definition ascent_update ::
  "'g torch \<Rightarrow> (tensor \<Rightarrow> pyfloat list) \<Rightarrow> tensor \<Rightarrow> real \<Rightarrow> real \<Rightarrow> tensor \<Rightarrow> tensor" where
  "ascent_update T fx x eps step_size p =
     box (tadd p (scalar_mul step_size (sign (autograd T (\<lambda>q. mean (fx q)) p)))) x eps"

subsection \<open>The dataset aggregator\<close>

text \<open>The variables of the loop over the batches: the running sum, the postfix last shown
  on the progress bar, and the generator's state.\<close>

record 'g aggregation =
  st_lips :: pyfloat
  st_postfix :: "pyfloat option"
  st_rng :: 'g

fun lipschitz_loop ::
  "'g torch \<Rightarrow> (tensor \<Rightarrow> tensor) \<Rightarrow> real \<Rightarrow> real \<Rightarrow> int \<Rightarrow> bool \<Rightarrow> nat \<Rightarrow>
   (tensor \<times> 'l) list \<Rightarrow> 'g aggregation \<Rightarrow> 'g aggregation" where
  "lipschitz_loop T model eps step_size n_steps l2_normalize i [] s = s"
| "lipschitz_loop T model eps step_size n_steps l2_normalize i ((x, labels) # rest) s =
     (let batch =
            compute_lipschitz_batch T model x eps step_size n_steps l2_normalize (st_rng s);
          lips_new = fadd (st_lips s) (returned batch)
      in lipschitz_loop T model eps step_size n_steps l2_normalize (i + 1) rest
           \<lparr> st_lips = lips_new,
             st_postfix = Some (fdiv_nat lips_new (i + 1)),
             st_rng = rng_after batch \<rparr>)"

definition compute_lipschitz ::
  "'g torch \<Rightarrow> (tensor \<Rightarrow> tensor) \<Rightarrow> (tensor \<times> 'l) list \<Rightarrow> real \<Rightarrow> real \<Rightarrow> int \<Rightarrow> bool \<Rightarrow> 'g \<Rightarrow>
   (py_error + pyfloat) \<times> 'g" where
  "compute_lipschitz T model dl eps step_size n_steps l2_normalize g =
     (let s = lipschitz_loop T model eps step_size n_steps l2_normalize 0 dl
                \<lparr> st_lips = Fin 0, st_postfix = None, st_rng = g \<rparr>
      in (py_truediv (st_lips s) (length dl), st_rng s))"

text \<open>The per-batch estimates in the order of the batches, each drawn with the generator
  state its predecessor left: what the aggregator averages.\<close>

fun batch_estimates ::
  "'g torch \<Rightarrow> (tensor \<Rightarrow> tensor) \<Rightarrow> real \<Rightarrow> real \<Rightarrow> int \<Rightarrow> bool \<Rightarrow>
   (tensor \<times> 'l) list \<Rightarrow> 'g \<Rightarrow> pyfloat list" where
  "batch_estimates T model eps step_size n_steps l2_normalize [] g = []"
| "batch_estimates T model eps step_size n_steps l2_normalize ((x, labels) # rest) g =
     returned (compute_lipschitz_batch T model x eps step_size n_steps l2_normalize g)
     # batch_estimates T model eps step_size n_steps l2_normalize rest
         (rng_after (compute_lipschitz_batch T model x eps step_size n_steps l2_normalize g))"

subsection \<open>The layer-wise driver\<close>

text \<open>\<^verbatim>\<open>TensorDataset(x, y)\<close> pairs each sample with its label and asserts that there
  are as many labels as samples. The constructor of \<^verbatim>\<open>DataLoader\<close> rejects a
  \<open>batch_size\<close> that is not positive; a \<^verbatim>\<open>DataLoader\<close>
  with \<^verbatim>\<open>drop_last=True\<close> and no shuffling yields the consecutive full groups of
  \<open>batch_size\<close> examples, each collated into a batch of samples and a batch of labels.\<close>

definition TensorDataset :: "tensor \<Rightarrow> 'l list \<Rightarrow> py_error + (real list \<times> 'l) list" where
  "TensorDataset x y = (if length x = length y then Inr (zip x y) else Inl AssertionError)"

function full_batches :: "nat \<Rightarrow> 'a list \<Rightarrow> 'a list list" where
  "full_batches n xs =
     (if n = 0 \<or> length xs < n then [] else take n xs # full_batches n (drop n xs))"
  by pat_completeness auto
termination
  by (relation "measure (\<lambda>(n, xs). length xs)") auto

declare full_batches.simps [simp del]

definition DataLoader :: "(real list \<times> 'l) list \<Rightarrow> nat \<Rightarrow> (tensor \<times> 'l list) list" where
  "DataLoader dataset batch_size =
     map (\<lambda>group. (map fst group, map snd group)) (full_batches batch_size dataset)"

definition Sequential :: "(tensor \<Rightarrow> tensor) list \<Rightarrow> tensor \<Rightarrow> tensor" where
  \<comment> \<open>\<^verbatim>\<open>nn.Sequential\<close>: the layers applied one after the other.\<close>
  "Sequential net v = foldl (\<lambda>a layer. layer a) v net"

text \<open>The functions of the repository that the driver calls and whose code lies outside
  this file, as parameters: the enum constructor \<^verbatim>\<open>BenchmarkDataset\<close>,
  \<^verbatim>\<open>check_model_eval\<close>, \<^verbatim>\<open>load_clean_dataset\<close> and the model's method
  \<^verbatim>\<open>get_lipschitz_layers\<close>. Each of the first three may raise.\<close>

record ('m, 'd, 'l) externals =
  BenchmarkDataset :: "string \<Rightarrow> py_error + 'd"
  check_model_eval :: "'m \<Rightarrow> py_error option"
  load_clean_dataset :: "'d \<Rightarrow> int \<Rightarrow> string \<Rightarrow> py_error + (tensor \<times> 'l list)"
  get_lipschitz_layers :: "'m \<Rightarrow> (tensor \<Rightarrow> tensor) list"

fun layers_loop ::
  "'g torch \<Rightarrow> (tensor \<times> 'l) list \<Rightarrow> real \<Rightarrow> real \<Rightarrow> int \<Rightarrow> bool \<Rightarrow>
   (tensor \<Rightarrow> tensor) list \<Rightarrow> (tensor \<Rightarrow> tensor) list \<Rightarrow> pyfloat list \<Rightarrow> 'g \<Rightarrow>
   (py_error + pyfloat list) \<times> 'g" where
  "layers_loop T dl eps step_size n_steps l2_normalize [] net lips g = (Inr lips, g)"
| "layers_loop T dl eps step_size n_steps l2_normalize (layer # rest) net lips g =
     (let net_new = net @ [layer] in
      case compute_lipschitz T (Sequential net_new) dl eps step_size n_steps l2_normalize g of
        (Inl e, g_new) \<Rightarrow> (Inl e, g_new)
      | (Inr layer_lips, g_new) \<Rightarrow>
          layers_loop T dl eps step_size n_steps l2_normalize rest net_new
            (lips @ [layer_lips]) g_new)"

definition benchmark_lipschitz ::
  "('m, 'd, 'l) externals \<Rightarrow> 'g torch \<Rightarrow> 'm \<Rightarrow> int \<Rightarrow> string \<Rightarrow> string \<Rightarrow> int \<Rightarrow>
   real \<Rightarrow> real \<Rightarrow> int \<Rightarrow> bool \<Rightarrow> 'g \<Rightarrow> (py_error + pyfloat list) \<times> 'g" where
  "benchmark_lipschitz E T model n_examples dataset data_dir batch_size eps step_size n_steps
     l2_normalize g =
     (case BenchmarkDataset E dataset of
        Inl e \<Rightarrow> (Inl e, g)
      | Inr dataset_id \<Rightarrow>
     (case check_model_eval E model of
        Some e \<Rightarrow> (Inl e, g)
      | None \<Rightarrow>
     (case load_clean_dataset E dataset_id n_examples data_dir of
        Inl e \<Rightarrow> (Inl e, g)
      | Inr (x, y) \<Rightarrow>
     (case TensorDataset x y of
        Inl e \<Rightarrow> (Inl e, g)
      | Inr examples \<Rightarrow>
          if batch_size \<le> 0 then (Inl ValueError, g)
          else layers_loop T (DataLoader examples (nat batch_size))
                 eps step_size n_steps l2_normalize (get_lipschitz_layers E model) [] [] g))))"

text \<open>The generator state with which the driver evaluates the prefix of the first
  \<open>i + 1\<close> layers: the state the evaluation of the prefix before it left.\<close>

primrec prefix_rng ::
  "'g torch \<Rightarrow> (tensor \<times> 'l) list \<Rightarrow> real \<Rightarrow> real \<Rightarrow> int \<Rightarrow> bool \<Rightarrow>
   (tensor \<Rightarrow> tensor) list \<Rightarrow> 'g \<Rightarrow> nat \<Rightarrow> 'g" where
  "prefix_rng T dl eps step_size n_steps l2_normalize layers g 0 = g"
| "prefix_rng T dl eps step_size n_steps l2_normalize layers g (Suc i) =
     snd (compute_lipschitz T (Sequential (take (Suc i) layers)) dl eps step_size n_steps
            l2_normalize (prefix_rng T dl eps step_size n_steps l2_normalize layers g i))"

section \<open>Properties\<close>

subsection \<open>Coordinates of the projector\<close>

lemma same_shape_length: "same_shape a b \<Longrightarrow> length a = length b"
  unfolding same_shape_def by (rule map_eq_imp_length_eq)

lemma same_shape_row: "same_shape a b \<Longrightarrow> i < length a \<Longrightarrow> length (a ! i) = length (b ! i)"
  unfolding same_shape_def by (metis length_map nth_map)

lemma box_rows:
  "box x_prime x eps =
     map2 (map2 (\<lambda>p v. max (max 0 (v - eps)) (min p (min 1 (v + eps))))) x_prime x"
  unfolding box_def Let_def torch_max_def torch_min_def tmap2_def zeros_like_def ones_like_def
    sub_scalar_def add_scalar_def tmap_def
  apply (rule nth_equalityI)
   apply simp
  apply simp
  apply (rule nth_equalityI)
   apply simp
  apply simp
  done

lemma box_coordinate:
  assumes "same_shape x_prime x" "i < length x" "j < length (x ! i)"
  shows "box x_prime x eps ! i ! j =
           max (max 0 (x ! i ! j - eps)) (min (x_prime ! i ! j) (min 1 (x ! i ! j + eps)))"
proof -
  have l: "length x_prime = length x" using assms(1) by (rule same_shape_length)
  have r: "length (x_prime ! i) = length (x ! i)"
    using assms(1,2) l by (simp add: same_shape_row)
  show ?thesis using assms(2,3) l r by (simp add: box_rows)
qed

text \<open>
  Claim C1, as amended. For tensors \<open>x'\<close> and \<open>x\<close> of one shape, a radius \<open>eps \<ge> 0\<close> and
  a coordinate of \<open>x\<close> that lies in \<open>[-eps, 1 + eps]\<close> (every coordinate of an input in
  \<open>[0, 1]\<close> does), the coordinate of \<open>box x' x eps\<close> lies between
  \<open>lower = max 0 (x - eps)\<close> and \<open>upper = min 1 (x + eps)\<close>, and no point of
  \<open>[lower, upper]\<close> is closer to the coordinate of \<open>x'\<close>, nor any other point as close.
\<close>

theorem box_containment_closest:
  assumes "same_shape x_prime x" and "0 \<le> eps" and "i < length x" and "j < length (x ! i)"
    and "- eps \<le> x ! i ! j" and "x ! i ! j \<le> 1 + eps"
  shows "max 0 (x ! i ! j - eps) \<le> box x_prime x eps ! i ! j
       \<and> box x_prime x eps ! i ! j \<le> min 1 (x ! i ! j + eps)
       \<and> (\<forall>y. max 0 (x ! i ! j - eps) \<le> y \<and> y \<le> min 1 (x ! i ! j + eps)
              \<longrightarrow> \<bar>box x_prime x eps ! i ! j - x_prime ! i ! j\<bar> \<le> \<bar>y - x_prime ! i ! j\<bar>
                \<and> (\<bar>y - x_prime ! i ! j\<bar> = \<bar>box x_prime x eps ! i ! j - x_prime ! i ! j\<bar>
                     \<longrightarrow> y = box x_prime x eps ! i ! j))"
proof -
  have c: "box x_prime x eps ! i ! j =
           max (max 0 (x ! i ! j - eps)) (min (x_prime ! i ! j) (min 1 (x ! i ! j + eps)))"
    using assms(1,3,4) by (rule box_coordinate)
  have ne: "max 0 (x ! i ! j - eps) \<le> min 1 (x ! i ! j + eps)"
    using assms(2,5,6) by simp
  show ?thesis unfolding c using ne by (auto simp: max_def min_def)
qed

text \<open>The theorem at \<open>x' = [[2, 1/2, -3]]\<close>, \<open>x = [[1/2, 1/2, 1/2]]\<close>, \<open>eps = 1/4\<close>,
  coordinate \<open>(0, 0)\<close>, compared with the point \<open>3/5\<close> of the interval.\<close>

theorem box_containment_closest_witness:
  "same_shape [[2, 1/2, -3]] [[1/2, 1/2, 1/2]] \<and> (0::real) \<le> 1/4
   \<and> max 0 (1/2 - 1/4) \<le> box [[2, 1/2, -3]] [[1/2, 1/2, 1/2]] (1/4) ! 0 ! 0
   \<and> box [[2, 1/2, -3]] [[1/2, 1/2, 1/2]] (1/4) ! 0 ! 0 \<le> min 1 (1/2 + 1/4)
   \<and> \<bar>box [[2, 1/2, -3]] [[1/2, 1/2, 1/2]] (1/4) ! 0 ! 0 - 2\<bar> \<le> \<bar>3/5 - 2 :: real\<bar>"
proof -
  let ?x = "[[1/2, 1/2, 1/2]] :: tensor"
  let ?p = "[[2, 1/2, -3]] :: tensor"
  let ?b = "box ?p ?x (1/4) ! 0 ! 0"
  have s: "same_shape ?p ?x" by (simp add: same_shape_def)
  have t: "max 0 (?x ! 0 ! 0 - 1/4) \<le> ?b \<and> ?b \<le> min 1 (?x ! 0 ! 0 + 1/4)
       \<and> (\<forall>y. max 0 (?x ! 0 ! 0 - 1/4) \<le> y \<and> y \<le> min 1 (?x ! 0 ! 0 + 1/4)
              \<longrightarrow> \<bar>?b - ?p ! 0 ! 0\<bar> \<le> \<bar>y - ?p ! 0 ! 0\<bar>
                \<and> (\<bar>y - ?p ! 0 ! 0\<bar> = \<bar>?b - ?p ! 0 ! 0\<bar> \<longrightarrow> y = ?b))"
    by (rule box_containment_closest [OF s]) simp_all
  then have c: "\<bar>?b - ?p ! 0 ! 0\<bar> \<le> \<bar>3/5 - ?p ! 0 ! 0\<bar>"
    by (elim conjE allE [of _ "3/5"]) simp
  from t have a: "max 0 (?x ! 0 ! 0 - 1/4) \<le> ?b" and b: "?b \<le> min 1 (?x ! 0 ! 0 + 1/4)"
    by blast+
  from s a b c show ?thesis by simp
qed

text \<open>Claim C1 as stated, for every reference tensor, fails at \<open>x = 2\<close>, \<open>eps = 0\<close>: the
  interval \<open>[2, 1]\<close> is empty and the projector returns \<open>2\<close>, above the upper bound.\<close>

theorem box_containment_counterexample:
  "(0::real) \<le> 0 \<and> \<not> box [[0]] [[2]] 0 ! 0 ! 0 \<le> min 1 (2 + 0)"
  by (simp add: box_rows)

text \<open>
  Claim C3. The projector is idempotent: for all tensors \<open>x'\<close>, \<open>x\<close> and every \<open>eps\<close>,
  \<open>box (box x' x eps) x eps\<close> is \<open>box x' x eps\<close>.
\<close>

theorem box_idempotent: "box (box x_prime x eps) x eps = box x_prime x eps"
proof -
  have pt: "\<And>p v. max (max 0 (v - eps)) (min (max (max 0 (v - eps)) (min p (min 1 (v + eps)))) (min 1 (v + eps)))
      = max (max 0 (v - eps)) (min p (min 1 (v + eps)))"
    by (auto simp: max_def min_def)
  have row: "map2 (\<lambda>p v. max (max 0 (v - eps)) (min p (min 1 (v + eps))))
           (map2 (\<lambda>p v. max (max 0 (v - eps)) (min p (min 1 (v + eps)))) p v) v
        = map2 (\<lambda>p v. max (max 0 (v - eps)) (min p (min 1 (v + eps)))) p v" for p v :: "real list"
    by (rule nth_equalityI) (simp_all add: pt)
  show ?thesis
    unfolding box_rows
    by (rule nth_equalityI) (simp_all add: row)
qed

text \<open>
  Claim C4, as amended. With \<open>eps = 0\<close>, for a candidate \<open>x'\<close> of the shape of \<open>x\<close> and a
  reference \<open>x\<close> whose coordinates are all non-negative, \<open>box x' x 0\<close> is exactly \<open>x\<close>.
\<close>

theorem box_zero_radius:
  assumes "same_shape x_prime x" and "\<forall>row \<in> set x. \<forall>v \<in> set row. 0 \<le> v"
  shows "box x_prime x 0 = x"
proof (rule nth_equalityI)
  show "length (box x_prime x 0) = length x"
    using assms(1) by (simp add: box_rows same_shape_length)
next
  fix i assume "i < length (box x_prime x 0)"
  then have i: "i < length x" using assms(1) by (simp add: box_rows same_shape_length)
  have l: "length x_prime = length x" using assms(1) by (rule same_shape_length)
  have r: "length (x_prime ! i) = length (x ! i)" using assms(1) i l by (simp add: same_shape_row)
  show "box x_prime x 0 ! i = x ! i"
  proof (rule nth_equalityI)
    show "length (box x_prime x 0 ! i) = length (x ! i)" using i l r by (simp add: box_rows)
  next
    fix j assume "j < length (box x_prime x 0 ! i)"
    then have j: "j < length (x ! i)" using i l r by (simp add: box_rows)
    have "0 \<le> x ! i ! j" using assms(2) i j by (meson nth_mem)
    then show "box x_prime x 0 ! i ! j = x ! i ! j"
      using box_coordinate [OF assms(1) i j, of 0] by (simp add: max_def min_def)
  qed
qed

text \<open>Claim C4 as stated, for every reference, fails at a negative coordinate: at
  \<open>x = -1\<close> the projector returns \<open>0\<close>.\<close>

theorem box_zero_radius_counterexample: "box [[0]] [[-1]] 0 \<noteq> [[-1]]"
  by (simp add: box_rows)

theorem box_zero_radius_witness:
  "same_shape [[5, -5]] [[1/2, 3]] \<and> box [[5, -5]] [[1/2, 3]] 0 = [[1/2, 3]]"
  using box_zero_radius [of "[[5, -5]]" "[[1/2, 3]]"]
  by (simp add: same_shape_def)

subsection \<open>The initial perturbation\<close>

lemmas eval_defs = initial_x_prime_def box_rows tadd_def scalar_mul_def tmap2_def tmap_def
      torch_norm_inf_dim1_def torch_norm_p1_dim1_def norm_inf_def norm_p1_def tsub_def
      flatten1_def f_objective_def true_div_def model_flat_def mean_def sign_def
      compute_lipschitz_batch_def ascent_step_def call_f_def py_max_def Let_def










subsection \<open>The running maximum and the calls of the objective\<close>

lemma fgt_irrefl: "\<not> fgt a a"
  by (cases a) simp_all

lemma py_max_same: "py_max a a = a"
  by (simp add: py_max_def)

lemma fge_refl: "a \<noteq> NaN \<Longrightarrow> fge a a"
  by (cases a) simp_all

lemma fgt_fge_trans: "fgt b a \<Longrightarrow> fge a m \<Longrightarrow> fge b m"
  by (cases a; cases b; cases m) simp_all

lemma py_max_keeps_bound: "fge a m \<Longrightarrow> fge (py_max a b) m"
  by (simp add: py_max_def fgt_fge_trans)

lemma ascent_loop_bound:
  "fge (st_max_lips s) m \<Longrightarrow> fge (st_max_lips (ascent_loop T fx x eps step_size n s)) m"
  by (induction n arbitrary: s) (simp_all add: ascent_step_def call_f_def Let_def py_max_keeps_bound)

text \<open>
  Claim C5, as amended. For every batch and every \<open>n_steps\<close>, when the mean objective at
  the initial perturbed point is not NaN, the value that \<open>compute_lipschitz_batch\<close> returns
  is greater than or equal to it.
\<close>

theorem returned_ge_initial:
  assumes "mean (f_objective (model_flat model l2_normalize) (model_flat model l2_normalize x) x
             (initial_x_prime x eps step_size (fst (randn_like T g x)))) \<noteq> NaN"
  shows "fge (returned (compute_lipschitz_batch T model x eps step_size n_steps l2_normalize g))
           (mean (f_objective (model_flat model l2_normalize) (model_flat model l2_normalize x) x
             (initial_x_prime x eps step_size (fst (randn_like T g x)))))"
  using assms
  by (simp add: compute_lipschitz_batch_def call_f_def Let_def py_max_keeps_bound
      ascent_loop_bound fge_refl)

text \<open>The theorem at \<open>x = [[1/2]]\<close>, \<open>eps = 1/4\<close>, \<open>step_size = 1/10\<close>, noise \<open>[[1]]\<close>, the
  identity network and one step: the initial objective is \<open>1\<close>.\<close>

theorem returned_ge_initial_witness:
  "mean (f_objective (model_flat (\<lambda>v. v) False) (model_flat (\<lambda>v. v) False [[1/2]]) [[1/2]]
        (initial_x_prime [[1/2]] (1/4) (1/10)
           (fst (randn_like \<lparr> randn_like = (\<lambda>g t. ([[1]], g)), autograd = (\<lambda>h p. p) \<rparr> ()
                  [[1/2]])))) = Fin 1
   \<and> fge (returned (compute_lipschitz_batch
       \<lparr> randn_like = (\<lambda>g t. ([[1]], g)), autograd = (\<lambda>h p. p) \<rparr>
       (\<lambda>v. v) [[1/2]] (1/4) (1/10) 1 False ()))
     (mean (f_objective (model_flat (\<lambda>v. v) False) (model_flat (\<lambda>v. v) False [[1/2]]) [[1/2]]
        (initial_x_prime [[1/2]] (1/4) (1/10)
           (fst (randn_like \<lparr> randn_like = (\<lambda>g t. ([[1]], g)), autograd = (\<lambda>h p. p) \<rparr> ()
                  [[1/2]])))))"
proof -
  let ?T = "\<lparr> randn_like = (\<lambda>g t. ([[1]], g)), autograd = (\<lambda>h p. p) \<rparr> :: unit torch"
  let ?init = "mean (f_objective (model_flat (\<lambda>v. v) False) (model_flat (\<lambda>v. v) False [[1/2]])
        [[1/2]] (initial_x_prime [[1/2]] (1/4) (1/10) (fst (randn_like ?T () [[1/2]]))))"
  have v: "?init = Fin 1" by (simp add: eval_defs)
  then have h: "?init \<noteq> NaN" by simp
  show ?thesis
    using v returned_ge_initial [of "\<lambda>v. v" False "[[1/2]]" "1/4" "1/10" ?T "()" 1, OF h]
    by blast
qed

text \<open>Claim C5 as stated fails where the initial objective is NaN: with \<open>eps = 0\<close> the
  initial point is \<open>x\<close>, the objective is \<open>0 / 0\<close>, the returned value is NaN, and
  \<^verbatim>\<open>>=\<close> is false of NaN.\<close>

theorem returned_ge_initial_counterexample:
  "returned (compute_lipschitz_batch
       \<lparr> randn_like = (\<lambda>g t. (t, g)), autograd = (\<lambda>h p. p) \<rparr>
       (\<lambda>v. v) [[1/2]] 0 1 0 False ()) = NaN
   \<and> \<not> fge (returned (compute_lipschitz_batch
       \<lparr> randn_like = (\<lambda>g t. (t, g)), autograd = (\<lambda>h p. p) \<rparr>
       (\<lambda>v. v) [[1/2]] 0 1 0 False ()))
     (mean (f_objective (model_flat (\<lambda>v. v) False) (model_flat (\<lambda>v. v) False [[1/2]]) [[1/2]]
        (initial_x_prime [[1/2]] 0 1
           (fst (randn_like \<lparr> randn_like = (\<lambda>g t. (t, g)), autograd = (\<lambda>h p. p) \<rparr> ()
                  [[1/2]])))))"
  by (simp add: eval_defs)

lemma ascent_step_point:
  "st_x_prime (ascent_step T fx x eps step_size s) = ascent_update T fx x eps step_size (st_x_prime s)"
  by (simp add: ascent_step_def ascent_update_def call_f_def Let_def)

lemma ascent_step_calls:
  "st_f_calls (ascent_step T fx x eps step_size s) = st_f_calls s @ [st_x_prime s]"
  by (simp add: ascent_step_def call_f_def Let_def)

lemma ascent_step_max:
  "st_max_lips (ascent_step T fx x eps step_size s)
     = py_max (st_max_lips s) (mean (fx (st_x_prime s)))"
  by (simp add: ascent_step_def call_f_def Let_def)

lemma map_iterates_shift:
  "map (\<lambda>k. (h ^^ k) (h p)) [0..<n] = map (\<lambda>k. (h ^^ k) p) [Suc 0..<Suc n]"
proof -
  have "map (\<lambda>k. (h ^^ k) p) [Suc 0..<Suc n] = map (\<lambda>k. (h ^^ k) p) (map Suc [0..<n])"
    by (simp only: map_Suc_upt)
  also have "\<dots> = map (\<lambda>k. (h ^^ k) (h p)) [0..<n]"
    by (simp add: funpow_swap1)
  finally show ?thesis by simp
qed

lemma ascent_loop_trace:
  "st_x_prime (ascent_loop T fx x eps step_size n s)
     = (ascent_update T fx x eps step_size ^^ n) (st_x_prime s)
   \<and> st_f_calls (ascent_loop T fx x eps step_size n s)
     = st_f_calls s @ map (\<lambda>k. (ascent_update T fx x eps step_size ^^ k) (st_x_prime s)) [0..<n]
   \<and> st_max_lips (ascent_loop T fx x eps step_size n s)
     = foldl py_max (st_max_lips s)
         (map (\<lambda>p. mean (fx p))
            (map (\<lambda>k. (ascent_update T fx x eps step_size ^^ k) (st_x_prime s)) [0..<n]))"
proof (induction n arbitrary: s)
  case 0
  show ?case by simp
next
  case (Suc n)
  let ?h = "ascent_update T fx x eps step_size"
  let ?s = "ascent_step T fx x eps step_size s"
  have up: "[0..<Suc n] = 0 # [Suc 0..<Suc n]" by (simp add: upt_rec)
  have sh: "map (\<lambda>k. (?h ^^ k) (?h (st_x_prime s))) [0..<n]
          = map (\<lambda>k. (?h ^^ k) (st_x_prime s)) [Suc 0..<Suc n]"
    by (rule map_iterates_shift)
  have a: "st_x_prime (ascent_loop T fx x eps step_size (Suc n) s) = (?h ^^ Suc n) (st_x_prime s)"
    using Suc.IH [of ?s] by (simp add: ascent_step_point funpow_swap1)
  have b: "st_f_calls (ascent_loop T fx x eps step_size (Suc n) s)
         = st_f_calls s @ map (\<lambda>k. (?h ^^ k) (st_x_prime s)) [0..<Suc n]"
    using Suc.IH [of ?s] unfolding up
    by (simp add: ascent_step_point ascent_step_calls sh del: upt_Suc)
  have c: "st_max_lips (ascent_loop T fx x eps step_size (Suc n) s)
     = foldl py_max (st_max_lips s)
         (map (\<lambda>p. mean (fx p)) (map (\<lambda>k. (?h ^^ k) (st_x_prime s)) [0..<Suc n]))"
    using Suc.IH [of ?s] unfolding up
    by (simp add: ascent_step_point ascent_step_max sh del: upt_Suc)
  from a b c show ?case by blast
qed

text \<open>
  Claim C6. For every batch and every \<open>n_steps\<close>, \<open>compute_lipschitz_batch\<close> calls the
  objective \<open>nat n_steps + 2\<close> times, which is \<open>n_steps + 2\<close> for \<open>n_steps \<ge> 0\<close>: once at
  the initial point, once in each iteration, at the point that the iterations before it
  reached, and once after the loop, at the final point. The value returned is the running
  maximum of the mean objective over exactly these calls, in their order.
\<close>

theorem f_evaluated_n_steps_plus_2:
  "length (f_evals (compute_lipschitz_batch T model x eps step_size n_steps l2_normalize g))
     = nat n_steps + 2
   \<and> f_evals (compute_lipschitz_batch T model x eps step_size n_steps l2_normalize g)
     = initial_x_prime x eps step_size (fst (randn_like T g x))
       # map (\<lambda>k. (ascent_update T
                       (f_objective (model_flat model l2_normalize)
                          (model_flat model l2_normalize x) x)
                       x eps step_size ^^ k)
                    (initial_x_prime x eps step_size (fst (randn_like T g x))))
           [0..<nat n_steps]
       @ [(ascent_update T
             (f_objective (model_flat model l2_normalize) (model_flat model l2_normalize x) x)
             x eps step_size ^^ nat n_steps)
            (initial_x_prime x eps step_size (fst (randn_like T g x)))]
   \<and> returned (compute_lipschitz_batch T model x eps step_size n_steps l2_normalize g)
     = foldl py_max
         (mean (f_objective (model_flat model l2_normalize) (model_flat model l2_normalize x) x
                  (hd (f_evals (compute_lipschitz_batch T model x eps step_size n_steps
                                  l2_normalize g)))))
         (map (\<lambda>p. mean (f_objective (model_flat model l2_normalize)
                           (model_flat model l2_normalize x) x p))
            (tl (f_evals (compute_lipschitz_batch T model x eps step_size n_steps
                            l2_normalize g))))"
proof -
  let ?fx = "f_objective (model_flat model l2_normalize) (model_flat model l2_normalize x) x"
  let ?p = "initial_x_prime x eps step_size (fst (randn_like T g x))"
  let ?h = "ascent_update T ?fx x eps step_size"
  let ?start = "\<lparr> st_x_prime = ?p, st_max_lips = mean (?fx ?p), st_f_calls = [?p] \<rparr>"
  let ?s = "ascent_loop T ?fx x eps step_size (nat n_steps) ?start"
  let ?r = "compute_lipschitz_batch T model x eps step_size n_steps l2_normalize g"
  have tr: "st_x_prime ?s = (?h ^^ nat n_steps) ?p"
    "st_f_calls ?s = [?p] @ map (\<lambda>k. (?h ^^ k) ?p) [0..<nat n_steps]"
    "st_max_lips ?s = foldl py_max (mean (?fx ?p))
         (map (\<lambda>p. mean (?fx p)) (map (\<lambda>k. (?h ^^ k) ?p) [0..<nat n_steps]))"
    using ascent_loop_trace [of T ?fx x eps step_size "nat n_steps" ?start] by simp_all
  have ev: "f_evals ?r = st_f_calls ?s @ [st_x_prime ?s]"
    by (simp add: compute_lipschitz_batch_def call_f_def Let_def)
  have re: "returned ?r = py_max (st_max_lips ?s) (mean (?fx (st_x_prime ?s)))"
    by (simp add: compute_lipschitz_batch_def call_f_def Let_def)
  have e2: "f_evals ?r = ?p # map (\<lambda>k. (?h ^^ k) ?p) [0..<nat n_steps] @ [(?h ^^ nat n_steps) ?p]"
    unfolding ev tr by simp
  have l: "length (f_evals ?r) = nat n_steps + 2" unfolding e2 by simp
  have r2: "returned ?r = foldl py_max (mean (?fx (hd (f_evals ?r))))
              (map (\<lambda>p. mean (?fx p)) (tl (f_evals ?r)))"
    unfolding re e2 tr by simp
  from l e2 r2 show ?thesis by blast
qed

text \<open>
  Claim C10. With \<open>n_steps = 0\<close>, \<open>compute_lipschitz_batch\<close> returns exactly the mean
  objective at the initial perturbed point, and the objective is called twice, both times
  at that point: no ascent step is made.
\<close>

theorem zero_steps_returns_initial:
  "returned (compute_lipschitz_batch T model x eps step_size 0 l2_normalize g)
     = mean (f_objective (model_flat model l2_normalize) (model_flat model l2_normalize x) x
             (initial_x_prime x eps step_size (fst (randn_like T g x))))
   \<and> f_evals (compute_lipschitz_batch T model x eps step_size 0 l2_normalize g)
     = [initial_x_prime x eps step_size (fst (randn_like T g x)),
        initial_x_prime x eps step_size (fst (randn_like T g x))]"
  by (simp add: compute_lipschitz_batch_def call_f_def Let_def py_max_same)

subsection \<open>The mean over the batches\<close>

lemma lipschitz_loop_sum:
  "st_lips (lipschitz_loop T model eps step_size n_steps l2_normalize i dl s)
     = foldl fadd (st_lips s)
         (batch_estimates T model eps step_size n_steps l2_normalize dl (st_rng s))"
proof (induction dl arbitrary: i s)
  case Nil
  show ?case by simp
next
  case (Cons b dl)
  obtain x labels where b: "b = (x, labels)" by (cases b)
  show ?case unfolding b by (simp add: Let_def Cons.IH)
qed

lemma batch_estimates_length:
  "length (batch_estimates T model eps step_size n_steps l2_normalize dl g) = length dl"
proof (induction dl arbitrary: g)
  case Nil
  show ?case by simp
next
  case (Cons b dl)
  obtain x labels where b: "b = (x, labels)" by (cases b)
  show ?case unfolding b by (simp add: Cons.IH)
qed

text \<open>
  Claim C7. For every non-empty sequence of batches, \<open>compute_lipschitz\<close> returns the
  arithmetic mean of the per-batch estimates: their sum, taken in the order of the batches
  from \<open>0\<close>, divided by the number of batches; there is one estimate per batch.
\<close>

theorem compute_lipschitz_is_mean:
  assumes "dl \<noteq> []"
  shows "fst (compute_lipschitz T model dl eps step_size n_steps l2_normalize g)
           = Inr (fdiv_nat
                    (foldl fadd (Fin 0)
                       (batch_estimates T model eps step_size n_steps l2_normalize dl g))
                    (length dl))
         \<and> length (batch_estimates T model eps step_size n_steps l2_normalize dl g) = length dl"
  using assms
  by (simp add: compute_lipschitz_def Let_def py_truediv_def lipschitz_loop_sum
      batch_estimates_length)

text \<open>The theorem at two batches of one sample each and the network \<open>v \<mapsto> 3 * v\<close>: both
  estimates are \<open>3\<close> and so is their mean.\<close>

theorem compute_lipschitz_is_mean_witness:
  "[([[1/2]], ()), ([[1/4]], ())] \<noteq> []
   \<and> fst (compute_lipschitz \<lparr> randn_like = (\<lambda>g t. ([[1]], g)), autograd = (\<lambda>h p. p) \<rparr>
           (\<lambda>v. scalar_mul 3 v) [([[1/2]], ()), ([[1/4]], ())] (1/4) (1/10) 0 False ())
       = Inr (Fin 3)"
proof -
  let ?T = "\<lparr> randn_like = (\<lambda>g t. ([[1]], g)), autograd = (\<lambda>h p. p) \<rparr> :: unit torch"
  let ?dl = "[([[1/2]], ()), ([[1/4]], ())] :: (tensor \<times> unit) list"
  have ne: "?dl \<noteq> []" by simp
  show ?thesis
    using compute_lipschitz_is_mean [OF ne, of ?T "\<lambda>v. scalar_mul 3 v" "1/4" "1/10" 0 False "()"]
    by (simp add: eval_defs)
qed

subsection \<open>The loader and the loop over the layers\<close>

lemma compute_lipschitz_returns:
  "dl \<noteq> [] \<Longrightarrow> \<exists>v. fst (compute_lipschitz T model dl eps step_size n_steps l2_normalize g) = Inr v"
  by (simp add: compute_lipschitz_def Let_def py_truediv_def)

lemma compute_lipschitz_empty:
  "fst (compute_lipschitz T model [] eps step_size n_steps l2_normalize g) = Inl ZeroDivisionError"
  by (simp add: compute_lipschitz_def Let_def py_truediv_def)

lemma full_batches_short: "length xs < n \<Longrightarrow> full_batches n xs = []"
  by (simp add: full_batches.simps)

lemma DataLoader_short: "length dataset < batch_size \<Longrightarrow> DataLoader dataset batch_size = []"
  by (simp add: DataLoader_def full_batches_short)

lemma DataLoader_length:
  "0 < batch_size \<Longrightarrow> length (DataLoader dataset batch_size) = length dataset div batch_size"
proof -
  assume p: "0 < batch_size"
  have "length (full_batches n xs) = length xs div n" if "0 < n" for n and xs :: "'b list"
    using that
  proof (induction n xs rule: full_batches.induct)
    case (1 n xs)
    show ?case
    proof (cases "length xs < n")
      case True
      then show ?thesis by (simp add: full_batches.simps)
    next
      case False
      then have "length (full_batches n xs) = Suc (length (drop n xs) div n)"
        using 1 by (subst full_batches.simps) simp
      also have "\<dots> = length xs div n"
        using False 1(2) by (simp add: le_div_geq)
      finally show ?thesis .
    qed
  qed
  then show ?thesis using p by (simp add: DataLoader_def)
qed

lemma layers_loop_invariant:
  assumes "dl \<noteq> []"
  shows "layers = net @ rest \<Longrightarrow>
    g = prefix_rng T dl eps step_size n_steps l2_normalize layers g0 (length net) \<Longrightarrow>
    length lips = length net \<Longrightarrow>
    (\<forall>i < length net.
       fst (compute_lipschitz T (Sequential (take (Suc i) layers)) dl eps step_size n_steps
              l2_normalize (prefix_rng T dl eps step_size n_steps l2_normalize layers g0 i))
         = Inr (lips ! i)) \<Longrightarrow>
    \<exists>out. fst (layers_loop T dl eps step_size n_steps l2_normalize rest net lips g) = Inr out
      \<and> length out = length layers
      \<and> (\<forall>i < length layers.
           fst (compute_lipschitz T (Sequential (take (Suc i) layers)) dl eps step_size n_steps
                  l2_normalize (prefix_rng T dl eps step_size n_steps l2_normalize layers g0 i))
             = Inr (out ! i))"
proof (induction rest arbitrary: net lips g)
  case Nil
  then show ?case by simp
next
  case (Cons layer rest)
  let ?net = "net @ [layer]"
  have tk: "take (Suc (length net)) layers = ?net" using Cons.prems(1) by simp
  obtain v where v: "fst (compute_lipschitz T (Sequential ?net) dl eps step_size n_steps
                            l2_normalize g) = Inr v"
    using compute_lipschitz_returns
      [OF assms, of T "Sequential ?net" eps step_size n_steps l2_normalize g]
    by (elim exE)
  define g1 where "g1 = snd (compute_lipschitz T (Sequential ?net) dl eps step_size n_steps
                            l2_normalize g)"
  have c: "compute_lipschitz T (Sequential ?net) dl eps step_size n_steps l2_normalize g
             = (Inr v, g1)"
    using v g1_def by (metis prod.collapse)
  have step: "layers_loop T dl eps step_size n_steps l2_normalize (layer # rest) net lips g
            = layers_loop T dl eps step_size n_steps l2_normalize rest ?net (lips @ [v]) g1"
    by (simp add: Let_def c)
  have p1: "layers = ?net @ rest" using Cons.prems(1) by simp
  have p2: "g1 = prefix_rng T dl eps step_size n_steps l2_normalize layers g0 (length ?net)"
    using g1_def tk Cons.prems(2) by simp
  have p3: "length (lips @ [v]) = length ?net" using Cons.prems(3) by simp
  have p4: "\<forall>i < length ?net.
       fst (compute_lipschitz T (Sequential (take (Suc i) layers)) dl eps step_size n_steps
              l2_normalize (prefix_rng T dl eps step_size n_steps l2_normalize layers g0 i))
         = Inr ((lips @ [v]) ! i)"
  proof (intro allI impI)
    fix i assume "i < length ?net"
    then consider "i < length net" | "i = length net" by fastforce
    then show "fst (compute_lipschitz T (Sequential (take (Suc i) layers)) dl eps step_size
                 n_steps l2_normalize
                 (prefix_rng T dl eps step_size n_steps l2_normalize layers g0 i))
         = Inr ((lips @ [v]) ! i)"
    proof cases
      case 1
      then show ?thesis using Cons.prems(3,4) by (simp add: nth_append)
    next
      case 2
      then show ?thesis using v tk Cons.prems(2,3) by (simp add: nth_append)
    qed
  qed
  show ?case unfolding step by (rule Cons.IH [OF p1 p2 p3 p4])
qed

lemma DataLoader_nonempty:
  "0 < batch_size \<Longrightarrow> batch_size \<le> length dataset \<Longrightarrow> DataLoader dataset batch_size \<noteq> []"
  by (simp add: DataLoader_def full_batches.simps [of batch_size dataset])

lemma layers_loop_raises:
  "fst (layers_loop T [] eps step_size n_steps l2_normalize (layer # rest) net lips g)
     = Inl ZeroDivisionError"
  by (simp add: Let_def compute_lipschitz_def py_truediv_def)

text \<open>
  Claim C8, as amended. When the dataset name is valid, the model passes
  \<open>check_model_eval\<close>, the dataset loads with as many labels as samples, \<open>batch_size\<close> is
  positive and the loader yields at least one full batch (or the model exposes no layer),
  \<open>benchmark_lipschitz\<close> returns a list of exactly \<open>k\<close> scalars for a model exposing \<open>k\<close>
  layers, and entry \<open>i\<close> is the dataset estimate of the sequential prefix of the first
  \<open>i + 1\<close> layers.
\<close>

theorem benchmark_lipschitz_per_layer:
  assumes "BenchmarkDataset E dataset = Inr d"
    and "check_model_eval E model = None"
    and "load_clean_dataset E d n_examples data_dir = Inr (x, y)"
    and "length x = length y"
    and "0 < batch_size"
    and "get_lipschitz_layers E model = [] \<or> nat batch_size \<le> length x"
  shows "\<exists>lips.
      fst (benchmark_lipschitz E T model n_examples dataset data_dir batch_size eps step_size
             n_steps l2_normalize g) = Inr lips
    \<and> length lips = length (get_lipschitz_layers E model)
    \<and> (\<forall>i < length (get_lipschitz_layers E model).
          fst (compute_lipschitz T (Sequential (take (Suc i) (get_lipschitz_layers E model)))
                 (DataLoader (zip x y) (nat batch_size)) eps step_size n_steps l2_normalize
                 (prefix_rng T (DataLoader (zip x y) (nat batch_size)) eps step_size
                    n_steps l2_normalize (get_lipschitz_layers E model) g i))
            = Inr (lips ! i))"
proof -
  let ?dl = "DataLoader (zip x y) (nat batch_size)"
  let ?layers = "get_lipschitz_layers E model"
  have b: "fst (benchmark_lipschitz E T model n_examples dataset data_dir batch_size eps
                  step_size n_steps l2_normalize g)
           = fst (layers_loop T ?dl eps step_size n_steps l2_normalize ?layers [] [] g)"
    using assms(1-5) by (simp add: benchmark_lipschitz_def TensorDataset_def)
  show ?thesis
  proof (cases "?layers = []")
    case True
    then show ?thesis unfolding b by simp
  next
    case False
    then have "nat batch_size \<le> length (zip x y)" using assms(4,6) by simp
    then have ne: "?dl \<noteq> []" using assms(5) by (simp add: DataLoader_nonempty)
    show ?thesis unfolding b
      by (rule layers_loop_invariant [OF ne, of ?layers "[]" ?layers g T eps step_size n_steps
            l2_normalize g "[]"]) simp_all
  qed
qed

text \<open>The theorem at a model of two layers, two examples and \<open>batch_size = 1\<close>.\<close>

theorem benchmark_lipschitz_per_layer_witness:
  "length [[1/2], [1/4 :: real]] = length [0::nat, 1] \<and> (0::int) < 1
   \<and> nat 1 \<le> length [[1/2], [1/4 :: real]]
   \<and> (\<exists>lips. fst (benchmark_lipschitz
      \<lparr> BenchmarkDataset = (\<lambda>s. Inr s), check_model_eval = (\<lambda>m. None),
        load_clean_dataset = (\<lambda>d n dir. Inr ([[1/2], [1/4]], [0::nat, 1])),
        get_lipschitz_layers = (\<lambda>m. [\<lambda>v. scalar_mul 2 v, \<lambda>v. scalar_mul 3 v]) \<rparr>
      \<lparr> randn_like = (\<lambda>g t. ([[1]], g)), autograd = (\<lambda>h p. p) \<rparr>
      () 2 ''cifar10'' ''./data'' 1 (1/4) (1/10) 0 False ()) = Inr lips \<and> length lips = 2)"
proof -
  let ?E = "\<lparr> BenchmarkDataset = (\<lambda>s. Inr s), check_model_eval = (\<lambda>m. None),
        load_clean_dataset = (\<lambda>d n dir. Inr ([[1/2], [1/4]], [0::nat, 1])),
        get_lipschitz_layers = (\<lambda>m. [\<lambda>v. scalar_mul 2 v, \<lambda>v. scalar_mul 3 v]) \<rparr>
        :: (unit, string, nat) externals"
  have h1: "BenchmarkDataset ?E ''cifar10'' = Inr ''cifar10''" by simp
  have h2: "check_model_eval ?E () = None" by simp
  have h3: "load_clean_dataset ?E ''cifar10'' 2 ''./data'' = Inr ([[1/2], [1/4]], [0::nat, 1])"
    by simp
  have h4: "length [[1/2], [1/4 :: real]] = length [0::nat, 1]" by simp
  have h5: "(0::int) < 1" by simp
  have h6: "get_lipschitz_layers ?E () = [] \<or> nat 1 \<le> length [[1/2], [1/4 :: real]]"
    by simp
  have l: "length (get_lipschitz_layers ?E ()) = 2" by simp
  have n: "nat 1 \<le> length [[1/2], [1/4 :: real]]" by simp
  obtain lips where
    "fst (benchmark_lipschitz ?E \<lparr> randn_like = (\<lambda>g t. ([[1]], g)), autograd = (\<lambda>h p. p) \<rparr>
            () 2 ''cifar10'' ''./data'' 1 (1/4) (1/10) 0 False ()) = Inr lips"
    and "length lips = length (get_lipschitz_layers ?E ())"
    using benchmark_lipschitz_per_layer [OF h1 h2 h3 h4 h5 h6,
        of "\<lparr> randn_like = (\<lambda>g t. ([[1]], g)), autograd = (\<lambda>h p. p) \<rparr>" "1/4" "1/10" 0 False "()"]
    by blast
  with l h4 h5 n show ?thesis by (intro conjI exI [of _ lips]) simp_all
qed

text \<open>Claim C8 as stated, for every model, fails when the loader yields no batch: with one
  layer, one example and \<open>batch_size = 2\<close> the driver raises and returns no list.\<close>

theorem benchmark_lipschitz_per_layer_counterexample:
  "length (get_lipschitz_layers
      \<lparr> BenchmarkDataset = (\<lambda>s. Inr s), check_model_eval = (\<lambda>m. None),
        load_clean_dataset = (\<lambda>d n dir. Inr ([[1/2]], [0::nat])),
        get_lipschitz_layers = (\<lambda>m. [\<lambda>v. v]) \<rparr> ()) = 1
   \<and> fst (benchmark_lipschitz
      \<lparr> BenchmarkDataset = (\<lambda>s. Inr s), check_model_eval = (\<lambda>m. None),
        load_clean_dataset = (\<lambda>d n dir. Inr ([[1/2]], [0::nat])),
        get_lipschitz_layers = (\<lambda>m. [\<lambda>v. v]) \<rparr>
      \<lparr> randn_like = (\<lambda>g t. ([[1]], g)), autograd = (\<lambda>h p. p) \<rparr>
      () 1 ''cifar10'' ''./data'' 2 (1/4) (1/10) 0 False ()) = Inl ZeroDivisionError"
  by (simp add: benchmark_lipschitz_def TensorDataset_def DataLoader_def full_batches.simps
      compute_lipschitz_def py_truediv_def Let_def)

text \<open>
  Claim C9. On a loader that yields zero batches \<open>compute_lipschitz\<close> raises
  \<open>ZeroDivisionError\<close>. In \<open>benchmark_lipschitz\<close> this happens when the loaded dataset has
  at most \<open>n_examples\<close> examples and \<open>n_examples < batch_size\<close>: the only, incomplete batch
  is dropped, and with at least one layer the driver raises \<open>ZeroDivisionError\<close>.
\<close>

theorem zero_batches_raise:
  "fst (compute_lipschitz T model [] eps step_size n_steps l2_normalize g) = Inl ZeroDivisionError
   \<and> (BenchmarkDataset E dataset = Inr d
      \<and> check_model_eval E m = None
      \<and> load_clean_dataset E d n_examples data_dir = Inr (x, y)
      \<and> length x = length y
      \<and> length x \<le> nat n_examples
      \<and> n_examples < batch_size
      \<and> 0 < batch_size
      \<and> get_lipschitz_layers E m \<noteq> []
      \<longrightarrow> DataLoader (zip x y) (nat batch_size) = []
        \<and> fst (benchmark_lipschitz E T m n_examples dataset data_dir batch_size eps step_size
                 n_steps l2_normalize g) = Inl ZeroDivisionError)"
proof (intro conjI impI)
  show "fst (compute_lipschitz T model [] eps step_size n_steps l2_normalize g)
          = Inl ZeroDivisionError"
    by (rule compute_lipschitz_empty)
next
  assume a: "BenchmarkDataset E dataset = Inr d
      \<and> check_model_eval E m = None
      \<and> load_clean_dataset E d n_examples data_dir = Inr (x, y)
      \<and> length x = length y
      \<and> length x \<le> nat n_examples
      \<and> n_examples < batch_size
      \<and> 0 < batch_size
      \<and> get_lipschitz_layers E m \<noteq> []"
  then have "length (zip x y) < nat batch_size"
    by simp linarith
  then show e: "DataLoader (zip x y) (nat batch_size) = []"
    by (rule DataLoader_short)
  obtain layer rest where lr: "get_lipschitz_layers E m = layer # rest"
    using a by (cases "get_lipschitz_layers E m") simp_all
  show "fst (benchmark_lipschitz E T m n_examples dataset data_dir batch_size eps step_size
                 n_steps l2_normalize g) = Inl ZeroDivisionError"
    using a
    by (simp add: benchmark_lipschitz_def TensorDataset_def e lr layers_loop_raises
        del: layers_loop.simps)
qed

text \<open>The theorem at one loaded example, \<open>n_examples = 1\<close> and \<open>batch_size = 2\<close>.\<close>

theorem zero_batches_raise_witness:
  "fst (compute_lipschitz \<lparr> randn_like = (\<lambda>g t. ([[1]], g)), autograd = (\<lambda>h p. p) \<rparr>
          (\<lambda>v. v) ([] :: (tensor \<times> nat list) list) (1/4) (1/10) 0 False ())
     = Inl ZeroDivisionError
   \<and> length [[1/2 :: real]] = length [0::nat]
   \<and> length [[1/2 :: real]] \<le> nat 1 \<and> (1::int) < 2
   \<and> DataLoader (zip [[1/2 :: real]] [0::nat]) (nat 2) = []
   \<and> fst (benchmark_lipschitz
      \<lparr> BenchmarkDataset = (\<lambda>s. Inr s), check_model_eval = (\<lambda>m. None),
        load_clean_dataset = (\<lambda>d n dir. Inr ([[1/2]], [0::nat])),
        get_lipschitz_layers = (\<lambda>m. [\<lambda>v. v]) \<rparr>
      \<lparr> randn_like = (\<lambda>g t. ([[1]], g)), autograd = (\<lambda>h p. p) \<rparr>
      () 1 ''cifar10'' ''./data'' 2 (1/4) (1/10) 0 False ()) = Inl ZeroDivisionError"
  using zero_batches_raise
    [of "\<lparr> randn_like = (\<lambda>g t. ([[1]], g)), autograd = (\<lambda>h p. p) \<rparr>" "\<lambda>v. v" "1/4" "1/10" 0 False "()"
        "\<lparr> BenchmarkDataset = (\<lambda>s. Inr s), check_model_eval = (\<lambda>m. None),
          load_clean_dataset = (\<lambda>d n dir. Inr ([[1/2]], [0::nat])),
          get_lipschitz_layers = (\<lambda>m. [\<lambda>v. v]) \<rparr>"
        "''cifar10''" "''cifar10''" "()" 1 "''./data''" "[[1/2]]" "[0]" 2]
  by simp

end
